theory Spec2Isabelle
  imports Complex_Main
begin

section \<open>Values of the host language\<close>

text \<open>
  The two modules are TypeScript. What they throw is an error value, what they read from
  the network is parsed JSON, and what \<^verbatim>\<open>Number(...)\<close> returns is an IEEE double, of which the
  code only asks whether it is above a constant.
\<close>

datatype js_error = TypeError | AbortError | SyntaxError | Error string

datatype js_number = NaN | NegInfinity | Finite rat | PosInfinity

text \<open>\<^verbatim>\<open>n > c\<close> and \<^verbatim>\<open>n >= c\<close> for a finite constant \<open>c\<close>; every comparison with NaN is false.\<close>

fun number_gt :: "js_number \<Rightarrow> rat \<Rightarrow> bool" where
  "number_gt NaN c = False"
| "number_gt NegInfinity c = False"
| "number_gt (Finite q) c = (c < q)"
| "number_gt PosInfinity c = True"

fun number_ge :: "js_number \<Rightarrow> rat \<Rightarrow> bool" where
  "number_ge NaN c = False"
| "number_ge NegInfinity c = False"
| "number_ge (Finite q) c = (c \<le> q)"
| "number_ge PosInfinity c = True"

text \<open>
  A value that \<^verbatim>\<open>JSON.parse\<close> produces. An object lists its own properties, each key once.
  A property that is not there reads as \<^verbatim>\<open>undefined\<close>, which is \<open>None\<close> of \<open>json option\<close>.
\<close>

datatype json =
    JNull
  | JBool bool
  | JNumber js_number
  | JString string
  | JArray "json list"
  | JObject "(string \<times> json) list"

text \<open>Truthiness, as \<^verbatim>\<open>if (v)\<close>, \<^verbatim>\<open>v || d\<close> and \<^verbatim>\<open>c ? a : b\<close> read it. An empty array is truthy.\<close>

fun truthy :: "json option \<Rightarrow> bool" where
  "truthy None = False"
| "truthy (Some JNull) = False"
| "truthy (Some (JBool b)) = b"
| "truthy (Some (JNumber n)) = (n \<noteq> NaN \<and> n \<noteq> Finite 0)"
| "truthy (Some (JString s)) = (s \<noteq> [])"
| "truthy (Some (JArray xs)) = True"
| "truthy (Some (JObject kvs)) = True"

text \<open>\<^verbatim>\<open>typeof v\<close>: null and arrays are objects.\<close>

fun typeof :: "json \<Rightarrow> string" where
  "typeof JNull = ''object''"
| "typeof (JBool b) = ''boolean''"
| "typeof (JNumber n) = ''number''"
| "typeof (JString s) = ''string''"
| "typeof (JArray xs) = ''object''"
| "typeof (JObject kvs) = ''object''"

text \<open>
  \<^verbatim>\<open>k in v\<close> for an object or an array \<open>v\<close> and one of the keys the manifest check asks for
  (name, description, icons, iconPath). None of them is an array index, \<^verbatim>\<open>length\<close> or a
  name inherited from \<^verbatim>\<open>Object.prototype\<close> or \<^verbatim>\<open>Array.prototype\<close>, so for these keys the
  operator is membership among an object's own keys and false on an array. (On a
  primitive the operator throws; the check asks \<^verbatim>\<open>typeof\<close> first.)
\<close>

fun js_in :: "string \<Rightarrow> json \<Rightarrow> bool" where
  "js_in k (JObject kvs) = (k \<in> set (map fst kvs))"
| "js_in k v = False"

text \<open>
  \<^verbatim>\<open>v.k\<close> for a value \<open>v\<close> that is not null and a key \<open>k\<close> among src, sizes, type, icons,
  iconPath, name, description and safe\_apps\_permissions: an object's own property, and
  \<^verbatim>\<open>undefined\<close> on an array, a string, a number or a boolean, none of which has a property
  of these names. Reading a property of null throws; each caller decides that first.
\<close>

fun js_get :: "json \<Rightarrow> string \<Rightarrow> json option" where
  "js_get (JObject kvs) k = map_of kvs k"
| "js_get v k = None"

subsection \<open>Strings\<close>

text \<open>\<^verbatim>\<open>s.startsWith(p)\<close>, \<^verbatim>\<open>s.includes(p)\<close> and \<^verbatim>\<open>s.split(c)\<close> for a one-character separator.\<close>

definition js_startsWith :: "string \<Rightarrow> string \<Rightarrow> bool" where
  "js_startsWith s p = (take (length p) s = p)"

fun js_includes :: "string \<Rightarrow> string \<Rightarrow> bool" where
  "js_includes [] p = (p = [])"
| "js_includes (c # cs) p = (js_startsWith (c # cs) p \<or> js_includes cs p)"

fun js_split :: "string \<Rightarrow> char \<Rightarrow> string list" where
  "js_split [] sep = [[]]"
| "js_split (c # cs) sep =
     (if c = sep then [] # js_split cs sep
      else (case js_split cs sep of [] \<Rightarrow> [[c]] | p # ps \<Rightarrow> (c # p) # ps))"


text \<open>Decimal digits of a number, for the template strings that print one.\<close>

fun show_nat :: "nat \<Rightarrow> string" where
  "show_nat n =
     (if n < 10 then [''0123456789'' ! n]
      else show_nat (n div 10) @ [''0123456789'' ! (n mod 10)])"

section \<open>The host: built-ins and the network\<close>

text \<open>
  What a body reader (\<^verbatim>\<open>response.text()\<close>, \<^verbatim>\<open>response.json()\<close>) comes to: it never
  settles, the stream breaks (a TypeError), the text is not what the reader parses
  (a SyntaxError), or it gives its value.
\<close>

datatype 'a reading = Never | Unreadable | Malformed | Gives 'a

record response =
  status :: nat
  as_text :: "string reading"
  as_json :: "json reading"

text \<open>\<^verbatim>\<open>response.ok\<close>: the status is in the range 200 to 299.\<close>

definition response_ok :: "response \<Rightarrow> bool" where
  "response_ok r = (200 \<le> status r \<and> status r \<le> 299)"

text \<open>
  What the network does with one request: after so many milliseconds the promise of
  \<^verbatim>\<open>fetch\<close> settles, rejected (a TypeError, a network failure) or fulfilled with a response
  whatever its status; or it never settles.
\<close>

datatype reply = NetworkFailure | Response response

datatype net_event = Settles nat reply | Hangs

text \<open>
  Everything the two modules take from their surroundings. The theorems below hold for
  every host.
  \<^item> \<open>Number\<close>: \<^verbatim>\<open>Number(s)\<close> of a string.
  \<^item> \<open>URL_origin\<close>: \<^verbatim>\<open>new URL(u).origin\<close>, \<open>None\<close> when the constructor throws its TypeError.
  \<^item> \<open>cheerio_manifest_href\<close>: \<^verbatim>\<open>cheerio.load(html)('link[rel=manifest]').attr('href')\<close>,
    \<open>Inr None\<close> when the page has no such link or the link no href.
  \<^item> \<open>fresh_id\<close>: the value of \<^verbatim>\<open>Math.round(Math.random() * 1e9 + 1e6)\<close>, a random draw
    and arithmetic on doubles that are the host's.
  \<^item> \<open>overflow_delay\<close>: the delay \<^verbatim>\<open>setTimeout\<close> keeps when it is asked for more than
    2147483647 milliseconds, which its signed 32-bit delay cannot hold (a browser keeps
    the low 32 bits read as a signed integer, a negative one as 0; Node keeps 1).
  \<^item> \<open>page_fetch\<close>, \<open>manifest_fetch\<close>: what the network does with the request of the page
    and with the request of the manifest.
\<close>

record host =
  Number :: "string \<Rightarrow> js_number"
  URL_origin :: "string \<Rightarrow> string option"
  cheerio_manifest_href :: "string \<Rightarrow> js_error + string option"
  fresh_id :: int
  overflow_delay :: "nat \<Rightarrow> nat"
  page_fetch :: "string \<Rightarrow> net_event"
  manifest_fetch :: "string \<Rightarrow> net_event"

text \<open>
  What a call leaves behind: the URLs it passed to \<^verbatim>\<open>fetch\<close> (oldest first), what it wrote
  with \<^verbatim>\<open>console.error\<close>, whether the callback it gave \<^verbatim>\<open>setTimeout\<close> is still scheduled
  (it has neither run nor been cleared), and whether the controller's signal is aborted.
\<close>

record runtime =
  requests :: "string list"
  console_errors :: "js_error list"
  timer_pending :: bool
  signal_aborted :: bool

definition fresh :: runtime where
  "fresh = \<lparr>requests = [], console_errors = [], timer_pending = False, signal_aborted = False\<rparr>"

text \<open>
  An awaited call either never returns (\<open>None\<close>), throws (\<open>Some (Inl e)\<close>) or returns
  (\<open>Some (Inr v)\<close>).
\<close>

type_synonym 'a completion = "(js_error + 'a) option"

section \<open>The manifest module\<close>

subsection \<open>Helpers of \<^verbatim>\<open>@/utils/url\<close>\<close>

text \<open>
  Modelled from the spec: \<^verbatim>\<open>trimTrailingSlash\<close> is imported from \<^verbatim>\<open>@/utils/url\<close>, which is not
  among the sources. The spec: ``Normalize appUrl by stripping a trailing slash.''
\<close>

definition trimTrailingSlash :: "string \<Rightarrow> string" where
  "trimTrailingSlash url =
     (case rev url of [] \<Rightarrow> [] | c # cs \<Rightarrow> if c = CHR ''/'' then rev cs else url)"

text \<open>
  Modelled from the spec: \<^verbatim>\<open>isRelativeUrl\<close> is imported from \<^verbatim>\<open>@/utils/url\<close>, which is not
  among the sources. The spec: ``a separating slash only if the reference is not already
  identifiable as a root-relative path'', such as \<^verbatim>\<open>/icon.png\<close>.
\<close>

definition isRelativeUrl :: "string \<Rightarrow> bool" where
  "isRelativeUrl url = js_startsWith url ''/''"

subsection \<open>Discovery of the manifest link: \<^verbatim>\<open>fetchAndParse\<close>\<close>

text \<open>The body of the \<^verbatim>\<open>try\<close> block: what it comes to before anything is caught.\<close>

definition fetchAndParse_try :: "host \<Rightarrow> string \<Rightarrow> string option completion" where
  "fetchAndParse_try h url =
     (case page_fetch h url of
        Hangs \<Rightarrow> None
      | Settles t NetworkFailure \<Rightarrow> Some (Inl TypeError)
      | Settles t (Response r) \<Rightarrow>
          if \<not> response_ok r
          then Some (Inl (Error (''Response status: '' @ show_nat (status r))))
          else (case as_text r of
                  Never \<Rightarrow> None
                | Unreadable \<Rightarrow> Some (Inl TypeError)
                | Malformed \<Rightarrow> Some (Inl SyntaxError)
                | Gives html \<Rightarrow>
                    (case cheerio_manifest_href h html of
                       Inl e \<Rightarrow> Some (Inl e)
                     | Inr manifestPath \<Rightarrow> Some (Inr manifestPath))))"

text \<open>
  The function: the \<^verbatim>\<open>catch\<close> writes the error to the console and falls off the end, so the
  call returns \<^verbatim>\<open>undefined\<close>.
\<close>

definition fetchAndParse ::
  "host \<Rightarrow> string \<Rightarrow> runtime \<Rightarrow> runtime \<times> string option completion" where
  "fetchAndParse h url rt =
     (let rt1 = rt\<lparr>requests := requests rt @ [url]\<rparr> in
      case fetchAndParse_try h url of
        None \<Rightarrow> (rt1, None)
      | Some (Inl e) \<Rightarrow> (rt1\<lparr>console_errors := console_errors rt1 @ [e]\<rparr>, Some (Inr None))
      | Some (Inr manifestPath) \<Rightarrow> (rt1, Some (Inr manifestPath)))"

subsection \<open>The icon: \<^verbatim>\<open>chooseBestIcon\<close>\<close>

definition MIN_ICON_WIDTH :: rat where
  "MIN_ICON_WIDTH = 128"

text \<open>\<^verbatim>\<open>icon?.k\<close>: \<^verbatim>\<open>undefined\<close> on null, the property otherwise.\<close>

definition js_get_opt :: "json \<Rightarrow> string \<Rightarrow> json option" where
  "js_get_opt v k = (case v of JNull \<Rightarrow> None | _ \<Rightarrow> js_get v k)"

text \<open>
  \<^verbatim>\<open>icon?.sizes?.includes('any')\<close>, with \<^verbatim>\<open>undefined\<close> read as false. A string looks for the
  substring, an array for the element; nothing else has a method \<^verbatim>\<open>includes\<close>, and calling
  what is not a function throws.
\<close>

definition sizes_includes_any :: "json \<Rightarrow> js_error + bool" where
  "sizes_includes_any icon =
     (case js_get_opt icon ''sizes'' of
        None \<Rightarrow> Inr False
      | Some JNull \<Rightarrow> Inr False
      | Some (JString sizes) \<Rightarrow> Inr (js_includes sizes ''any'')
      | Some (JArray xs) \<Rightarrow> Inr (List.member xs (JString ''any''))
      | Some _ \<Rightarrow> Inl TypeError)"

text \<open>The predicate given to \<^verbatim>\<open>icons.find\<close>.\<close>

definition is_svgIcon :: "json \<Rightarrow> js_error + bool" where
  "is_svgIcon icon =
     (case sizes_includes_any icon of
        Inl e \<Rightarrow> Inl e
      | Inr b \<Rightarrow> Inr (b \<or> js_get_opt icon ''type'' = Some (JString ''image/svg+xml'')))"

text \<open>\<^verbatim>\<open>icons.find(...)\<close>: the first element the predicate holds of, \<^verbatim>\<open>undefined\<close> when none.\<close>

fun find_svgIcon :: "json list \<Rightarrow> js_error + json option" where
  "find_svgIcon [] = Inr None"
| "find_svgIcon (icon # icons) =
     (case is_svgIcon icon of
        Inl e \<Rightarrow> Inl e
      | Inr b \<Rightarrow> if b then Inr (Some icon) else find_svgIcon icons)"

text \<open>\<^verbatim>\<open>Number(size.split('x')[0]) >= MIN_ICON_WIDTH\<close>.\<close>

definition wide_enough :: "host \<Rightarrow> string \<Rightarrow> bool" where
  "wide_enough h token =
     number_ge (case js_split token CHR ''x'' of [] \<Rightarrow> NaN | w # _ \<Rightarrow> Number h w) MIN_ICON_WIDTH"

text \<open>
  The two nested loops. \<open>Inr None\<close>: the loops ran to their end; \<open>Inr (Some v)\<close>: the
  function returned \<open>v\<close> from inside them. \<^verbatim>\<open>icon.sizes.split\<close> throws on a null icon, on
  sizes that are not there, and on sizes that are not a string.
\<close>

fun scan_icons :: "host \<Rightarrow> json list \<Rightarrow> js_error + json option option" where
  "scan_icons h [] = Inr None"
| "scan_icons h (icon # icons) =
     (case icon of
        JNull \<Rightarrow> Inl TypeError
      | _ \<Rightarrow>
          (case js_get icon ''sizes'' of
             Some (JString sizes) \<Rightarrow>
               if list_ex (wide_enough h) (js_split sizes CHR '' '')
               then Inr (Some (js_get icon ''src''))
               else scan_icons h icons
           | _ \<Rightarrow> Inl TypeError))"

text \<open>\<^verbatim>\<open>v || d\<close>.\<close>

definition js_or :: "json option \<Rightarrow> json \<Rightarrow> json" where
  "js_or v d = (case v of None \<Rightarrow> d | Some x \<Rightarrow> if truthy (Some x) then x else d)"

text \<open>
  The function. It returns what the chosen icon has as \<^verbatim>\<open>src\<close>, \<^verbatim>\<open>undefined\<close> (\<open>None\<close>) when
  the icon found by one of the first two rules has none.
\<close>

definition chooseBestIcon :: "host \<Rightarrow> json list \<Rightarrow> js_error + json option" where
  "chooseBestIcon h icons =
     (case find_svgIcon icons of
        Inl e \<Rightarrow> Inl e
      | Inr svgIcon \<Rightarrow>
          (case (if truthy svgIcon then svgIcon else None) of
             Some icon \<Rightarrow> Inr (js_get icon ''src'')
           | None \<Rightarrow>
               (case scan_icons h icons of
                  Inl e \<Rightarrow> Inl e
                | Inr (Some src) \<Rightarrow> Inr src
                | Inr None \<Rightarrow>
                    (case icons of
                       [] \<Rightarrow> Inl TypeError
                     | JNull # _ \<Rightarrow> Inl TypeError
                     | icon0 # _ \<Rightarrow> Inr (Some (js_or (js_get icon0 ''src'') (JString '''')))))))"

subsection \<open>The icon's URL: \<^verbatim>\<open>getAppLogoUrl\<close>\<close>

text \<open>
  \<^verbatim>\<open>icons.length\<close> as a condition: it throws on null, counts the elements of an array and
  the characters of a string, reads the property of an object, and is \<^verbatim>\<open>undefined\<close> on a
  number or a boolean.
\<close>

definition length_truthy :: "json \<Rightarrow> js_error + bool" where
  "length_truthy v =
     (case v of
        JNull \<Rightarrow> Inl TypeError
      | JArray xs \<Rightarrow> Inr (xs \<noteq> [])
      | JString s \<Rightarrow> Inr (s \<noteq> [])
      | JObject kvs \<Rightarrow> Inr (truthy (map_of kvs ''length''))
      | _ \<Rightarrow> Inr False)"

text \<open>
  The destructuring of the manifest with its defaults, and the local \<^verbatim>\<open>iconUrl\<close>. Only an
  array has a method \<^verbatim>\<open>find\<close>.
\<close>

definition iconUrl_of :: "host \<Rightarrow> json \<Rightarrow> js_error + json option" where
  "iconUrl_of h manifest =
     (case manifest of
        JNull \<Rightarrow> Inl TypeError
      | _ \<Rightarrow>
          (let icons = (case js_get manifest ''icons'' of None \<Rightarrow> JArray [] | Some v \<Rightarrow> v);
               iconPath = (case js_get manifest ''iconPath'' of None \<Rightarrow> JString '''' | Some v \<Rightarrow> v)
           in case length_truthy icons of
                Inl e \<Rightarrow> Inl e
              | Inr b \<Rightarrow>
                  if b then (case icons of JArray xs \<Rightarrow> chooseBestIcon h xs | _ \<Rightarrow> Inl TypeError)
                  else Inr (Some iconPath)))"

text \<open>
  The function. \<^verbatim>\<open>iconUrl.startsWith\<close> throws unless \<^verbatim>\<open>iconUrl\<close> is a string, and the URL
  constructor runs before the prefix is looked at.
\<close>

definition getAppLogoUrl :: "host \<Rightarrow> string \<Rightarrow> json \<Rightarrow> js_error + string" where
  "getAppLogoUrl h appUrl manifest =
     (case iconUrl_of h manifest of
        Inl e \<Rightarrow> Inl e
      | Inr (Some (JString iconUrl)) \<Rightarrow>
          (let includesBaseUrl = js_startsWith iconUrl ''https://'' in
           case URL_origin h appUrl of
             None \<Rightarrow> Inl TypeError
           | Some baseUrl \<Rightarrow>
               if includesBaseUrl then Inr iconUrl
               else Inr (baseUrl @ (if isRelativeUrl iconUrl then '''' else ''/'') @ iconUrl))
      | Inr _ \<Rightarrow> Inl TypeError)"

subsection \<open>The manifest document: \<^verbatim>\<open>fetchAppManifest\<close>\<close>

text \<open>
  The manifest's URL: the default, replaced when \<^verbatim>\<open>manifestPath\<close> is truthy (a string that
  is not empty) by the origin of \<^verbatim>\<open>appUrl\<close> followed by the path.
\<close>

definition manifestUrl_of :: "host \<Rightarrow> string \<Rightarrow> string option \<Rightarrow> js_error + string" where
  "manifestUrl_of h appUrl manifestPath =
     (let normalizedUrl = trimTrailingSlash appUrl;
          manifestUrl = normalizedUrl @ ''/manifest.json''
      in case manifestPath of
           None \<Rightarrow> Inr manifestUrl
         | Some path \<Rightarrow>
             if path = [] then Inr manifestUrl
             else (case URL_origin h appUrl of
                     None \<Rightarrow> Inl TypeError
                   | Some origin \<Rightarrow> Inr (origin @ path)))"

text \<open>
  The delay \<^verbatim>\<open>setTimeout\<close> keeps for a timeout given as a whole number of milliseconds:
  the timeout itself as long as it fits a signed 32-bit integer, and what the host
  makes of it beyond.
\<close>

definition setTimeout_delay :: "host \<Rightarrow> nat \<Rightarrow> nat" where
  "setTimeout_delay h timeout =
     (if timeout \<le> 2147483647 then timeout else overflow_delay h timeout)"

text \<open>
  The race between the request and the timer set just before it: the reply when the
  network settles the request before the timer's delay has passed, \<open>None\<close> when the timer
  runs first. A reply in the very millisecond of the deadline counts as late.
\<close>

definition race :: "net_event \<Rightarrow> nat \<Rightarrow> reply option" where
  "race ev delay =
     (case ev of Hangs \<Rightarrow> None | Settles t r \<Rightarrow> if t < delay then Some r else None)"

text \<open>
  The request under the timer: \<^verbatim>\<open>setTimeout\<close>, the awaited \<^verbatim>\<open>fetch\<close> with the controller's
  signal, \<^verbatim>\<open>clearTimeout\<close>, the check of the status, \<^verbatim>\<open>response.json()\<close>. When the timer runs
  first its callback aborts the controller and the awaited \<^verbatim>\<open>fetch\<close> rejects with an
  AbortError. A rejected \<^verbatim>\<open>fetch\<close> leaves the function at the \<^verbatim>\<open>await\<close>.
\<close>

definition request_manifest ::
  "host \<Rightarrow> string \<Rightarrow> nat \<Rightarrow> runtime \<Rightarrow> runtime \<times> json completion" where
  "request_manifest h manifestUrl timeout rt =
     (let rt1 = rt\<lparr>timer_pending := True\<rparr>;
          rt2 = rt1\<lparr>requests := requests rt1 @ [manifestUrl]\<rparr>
      in case race (manifest_fetch h manifestUrl) (setTimeout_delay h timeout) of
           None \<Rightarrow> (rt2\<lparr>timer_pending := False, signal_aborted := True\<rparr>, Some (Inl AbortError))
         | Some NetworkFailure \<Rightarrow> (rt2, Some (Inl TypeError))
         | Some (Response r) \<Rightarrow>
             (let rt3 = rt2\<lparr>timer_pending := False\<rparr> in
              if \<not> response_ok r
              then (rt3, Some (Inl (Error (''Failed to fetch manifest from '' @ manifestUrl))))
              else (rt3,
                    case as_json r of
                      Never \<Rightarrow> None
                    | Unreadable \<Rightarrow> Some (Inl TypeError)
                    | Malformed \<Rightarrow> Some (Inl SyntaxError)
                    | Gives doc \<Rightarrow> Some (Inr doc))))"

text \<open>The function; \<open>None\<close> as the timeout is the call without the second argument.\<close>

definition fetchAppManifest ::
  "host \<Rightarrow> string \<Rightarrow> nat option \<Rightarrow> runtime \<Rightarrow> runtime \<times> json completion" where
  "fetchAppManifest h appUrl timeout_arg rt =
     (let timeout = (case timeout_arg of None \<Rightarrow> 5000 | Some t \<Rightarrow> t);
          normalizedUrl = trimTrailingSlash appUrl;
          (rt1, found) = fetchAndParse h normalizedUrl rt
      in case found of
           None \<Rightarrow> (rt1, None)
         | Some (Inl e) \<Rightarrow> (rt1, Some (Inl e))
         | Some (Inr manifestPath) \<Rightarrow>
             (case manifestUrl_of h appUrl manifestPath of
                Inl e \<Rightarrow> (rt1, Some (Inl e))
              | Inr manifestUrl \<Rightarrow> request_manifest h manifestUrl timeout rt1))"

subsection \<open>Validation and the pipeline: \<^verbatim>\<open>isAppManifestValid\<close>, \<^verbatim>\<open>fetchSafeAppFromManifest\<close>\<close>

definition isAppManifestValid :: "json \<Rightarrow> bool" where
  "isAppManifestValid j =
     (j \<noteq> JNull \<and> typeof j = ''object'' \<and> js_in ''name'' j \<and> js_in ''description'' j \<and>
      (js_in ''icons'' j \<or> js_in ''iconPath'' j))"

text \<open>
  The access policies of the gateway SDK, declared outside the sources; the pipeline
  writes the first into every record.
\<close>

datatype SafeAppAccessPolicyTypes = NoRestrictions | DomainAllowlist

text \<open>
  The record the pipeline returns, field by field as the source builds it (the
  identifier, the URL, the name and the icon's URL carry a prefix here, their names
  being taken). Name and description are whatever the document has
  under these keys, and the permissions whatever it has under
  \<^verbatim>\<open>safe_apps_permissions\<close>, an empty array when that is falsy. The identifier is the
  host's value of \<^verbatim>\<open>Math.round(Math.random() * 1e9 + 1e6)\<close>.
\<close>

record SafeAppData =
  app_id :: int
  app_url :: string
  app_name :: "json option"
  app_description :: "json option"
  accessControl :: SafeAppAccessPolicyTypes
  tags :: "string list"
  features :: "string list"
  socialProfiles :: "string list"
  developerWebsite :: string
  chainIds :: "string list"
  app_iconUrl :: string
  safeAppsPermissions :: json

definition invalid_manifest :: js_error where
  "invalid_manifest = Error ''Invalid Safe App manifest''"

definition fetchSafeAppFromManifest ::
  "host \<Rightarrow> string \<Rightarrow> string \<Rightarrow> runtime \<Rightarrow> runtime \<times> SafeAppData completion" where
  "fetchSafeAppFromManifest h appUrl currentChainId rt =
     (let normalizedAppUrl = trimTrailingSlash appUrl;
          (rt1, fetched) = fetchAppManifest h appUrl None rt
      in case fetched of
           None \<Rightarrow> (rt1, None)
         | Some (Inl e) \<Rightarrow> (rt1, Some (Inl e))
         | Some (Inr appManifest) \<Rightarrow>
             if \<not> isAppManifestValid appManifest then (rt1, Some (Inl invalid_manifest))
             else (case getAppLogoUrl h normalizedAppUrl appManifest of
                     Inl e \<Rightarrow> (rt1, Some (Inl e))
                   | Inr iconUrl \<Rightarrow>
                       (rt1, Some (Inr
                         \<lparr>app_id = fresh_id h,
                          app_url = normalizedAppUrl,
                          app_name = js_get appManifest ''name'',
                          app_description = js_get appManifest ''description'',
                          accessControl = NoRestrictions,
                          tags = [],
                          features = [],
                          socialProfiles = [],
                          developerWebsite = [],
                          chainIds = [currentChainId],
                          app_iconUrl = iconUrl,
                          safeAppsPermissions =
                            js_or (js_get appManifest ''safe_apps_permissions'') (JArray [])\<rparr>))))"

subsection \<open>Icon descriptors\<close>

text \<open>
  An icon of a manifest as an object with string properties, each of which the document
  may leave out: the declared type \<^verbatim>\<open>AppManifestIcon\<close> asks for \<^verbatim>\<open>src\<close> and \<^verbatim>\<open>sizes\<close>, but the
  validation looks at no icon, so what reaches \<^verbatim>\<open>chooseBestIcon\<close> may lack them.
\<close>

record AppManifestIcon =
  src :: "string option"
  sizes :: "string option"
  icon_type :: "string option"
  purpose :: "string option"

definition string_prop :: "string \<Rightarrow> string option \<Rightarrow> (string \<times> json) list" where
  "string_prop k v = (case v of None \<Rightarrow> [] | Some s \<Rightarrow> [(k, JString s)])"

definition icon_json :: "AppManifestIcon \<Rightarrow> json" where
  "icon_json i =
     JObject (string_prop ''src'' (src i) @ string_prop ''sizes'' (sizes i) @
              string_prop ''type'' (icon_type i) @ string_prop ''purpose'' (purpose i))"

text \<open>The first two rules of the selection, on a descriptor.\<close>

definition scalable :: "AppManifestIcon \<Rightarrow> bool" where
  "scalable i =
     ((case sizes i of None \<Rightarrow> False | Some s \<Rightarrow> js_includes s ''any'') \<or>
      icon_type i = Some ''image/svg+xml'')"

definition wide :: "host \<Rightarrow> AppManifestIcon \<Rightarrow> bool" where
  "wide h i =
     (case sizes i of None \<Rightarrow> False | Some s \<Rightarrow> list_ex (wide_enough h) (js_split s CHR '' ''))"

text \<open>A manifest document with a name, a description and a list of icons.\<close>

definition manifest_with_icons :: "string \<Rightarrow> string \<Rightarrow> AppManifestIcon list \<Rightarrow> json" where
  "manifest_with_icons name description icons =
     JObject [(''name'', JString name), (''description'', JString description),
              (''icons'', JArray (map icon_json icons))]"

section \<open>The transaction view: \<^verbatim>\<open>DecodedTx\<close>\<close>

subsection \<open>The data the component is given\<close>

text \<open>
  The types of the transaction, of the decoded data and of the details are imported
  from two packages and are not among the sources. Each is modelled from the data
  model of the spec, with a field optional wherever the component reads it with \<^verbatim>\<open>?.\<close>,
  tests it for truthiness or gives it a default.
\<close>

text \<open>
  Modelled from the spec: \<^verbatim>\<open>OperationType\<close> of safe-core-sdk-types, the ``operation kind
  {CALL, DELEGATECALL}'' of a raw transaction.
\<close>

datatype OperationType = Call | DelegateCall

text \<open>
  Modelled from the spec: \<^verbatim>\<open>Operation\<close> of safe-gateway-typescript-sdk, the
  ``operationKind \<open>\<in>\<close> {CALL, DELEGATECALL}'' of the presentation model.
\<close>

datatype Operation = CALL | DELEGATE

text \<open>
  Modelled from the spec: the data of a \<^verbatim>\<open>SafeTransaction\<close>, the raw transaction with its
  ``target address, call value (integer, base units), operation kind, opaque call
  data''. The value is kept as the string the component passes to \<^verbatim>\<open>Number\<close>.
\<close>

record SafeTransactionData =
  to :: string
  call_value :: string
  call_data :: string
  operation :: OperationType

text \<open>Modelled from the spec: \<^verbatim>\<open>SafeTransaction\<close>, of which the component reads \<^verbatim>\<open>data\<close> only.\<close>

record SafeTransaction =
  data :: SafeTransactionData

text \<open>
  Modelled from the spec: \<^verbatim>\<open>DecodedDataResponse\<close>, the decoded call data with its ``method
  name, ordered sequence of decoded parameters, each parameter optionally itself
  carrying a nested decoded-value sequence (recursive)'': the nested value of a
  parameter is a sequence of inner calls, each of which may carry decoded data again.
\<close>

datatype DecodedDataResponse =
    DecodedDataResponse (method_name: "string option")
      (parameters: "DecodedDataParameter list option")
and DecodedDataParameter =
    DecodedDataParameter (param_name: string) (param_type: string) (param_value: string)
      (valueDecoded: "InternalTransaction list option")
and InternalTransaction =
    InternalTransaction (inner_operation: Operation) (inner_to: string)
      (inner_value: "string option") (inner_data: "string option")
      (inner_dataDecoded: "DecodedDataResponse option")

text \<open>
  Modelled from the spec: an address with its label, the ``target descriptor (name +
  address + logo)''.
\<close>

record AddressEx =
  address_value :: string
  address_name :: "string option"
  address_logoUri :: "string option"

text \<open>
  Modelled from the spec: the transaction data of the details, which is also the type
  of the object the component builds: ``{ decodedData, target, value, operationKind,
  trustedDelegateTarget, addressLabelIndex }''.
\<close>

record TransactionData =
  dataDecoded :: "DecodedDataResponse option"
  txData_to :: AddressEx
  txData_value :: "string option"
  txData_operation :: Operation
  trustedDelegateCallTarget :: "bool option"
  addressInfoIndex :: "(string \<times> AddressEx) list option"

text \<open>
  Modelled from the spec: the details fetched for a transaction, ``including a
  trusted-delegate-target flag, an address-label index'', both of which the component
  reads through \<^verbatim>\<open>txData\<close>.
\<close>

record TransactionDetails =
  txData :: "TransactionData option"

text \<open>
  The properties of the component, as the source declares them. (The label of the
  target, \<^verbatim>\<open>toInfo\<close>, needs \<^verbatim>\<open>isCustomTxInfo\<close> of another module and the variants of the
  transaction info; it is left out, and nothing below depends on it.)
\<close>

record DecodedTxProps =
  tx :: "SafeTransaction option"
  txId :: "string option"
  decodedData :: "DecodedDataResponse option"
  showMultisend :: "bool option"
  showMethodCall :: "bool option"

subsection \<open>What the component derives\<close>

text \<open>The defaults of the two flags: \<^verbatim>\<open>showMultisend = true\<close>, \<^verbatim>\<open>showMethodCall = false\<close>.\<close>

definition showMultisend_of :: "DecodedTxProps \<Rightarrow> bool" where
  "showMultisend_of props = (case showMultisend props of None \<Rightarrow> True | Some b \<Rightarrow> b)"

definition showMethodCall_of :: "DecodedTxProps \<Rightarrow> bool" where
  "showMethodCall_of props = (case showMethodCall props of None \<Rightarrow> False | Some b \<Rightarrow> b)"

text \<open>
  \<^verbatim>\<open>!!decodedData?.parameters?.[0]?.valueDecoded\<close>: each \<^verbatim>\<open>?.\<close> stops at what is not there,
  and the double negation asks whether the array at the end is truthy, which every
  array is.
\<close>

definition isMultisend :: "DecodedDataResponse option \<Rightarrow> bool" where
  "isMultisend dd =
     (case dd of
        None \<Rightarrow> False
      | Some d \<Rightarrow>
          (case parameters d of
             None \<Rightarrow> False
           | Some [] \<Rightarrow> False
           | Some (p # _) \<Rightarrow> (case valueDecoded p of None \<Rightarrow> False | Some calls \<Rightarrow> True)))"

definition isMethodCallInAdvanced :: "DecodedTxProps \<Rightarrow> bool" where
  "isMethodCallInAdvanced props = (\<not> showMethodCall_of props \<or> isMultisend (decodedData props))"

text \<open>The object \<^verbatim>\<open>txData\<close>; \<open>txDetails\<close> is what the hook \<^verbatim>\<open>useTxDetails\<close> has at this render.\<close>

definition DecodedTx_txData :: "DecodedTxProps \<Rightarrow> TransactionDetails option \<Rightarrow> TransactionData" where
  "DecodedTx_txData props txDetails =
     \<lparr>dataDecoded = decodedData props,
      txData_to =
        \<lparr>address_value = (case tx props of None \<Rightarrow> [] | Some t \<Rightarrow> to (data t)),
         address_name = None, address_logoUri = None\<rparr>,
      txData_value = (case tx props of None \<Rightarrow> None | Some t \<Rightarrow> Some (call_value (data t))),
      txData_operation =
        (case tx props of
           None \<Rightarrow> CALL
         | Some t \<Rightarrow> if operation (data t) = DelegateCall then DELEGATE else CALL),
      trustedDelegateCallTarget =
        Some (case txDetails of
                None \<Rightarrow> True
              | Some details \<Rightarrow>
                  (case txData details of
                     None \<Rightarrow> True
                   | Some td \<Rightarrow>
                       (case trustedDelegateCallTarget td of None \<Rightarrow> True | Some b \<Rightarrow> b))),
      addressInfoIndex =
        (case txDetails of
           None \<Rightarrow> None
         | Some details \<Rightarrow>
             (case txData details of None \<Rightarrow> None | Some td \<Rightarrow> addressInfoIndex td))\<rparr>"

text \<open>\<^verbatim>\<open>decodedData?.method\<close> as a condition: a method that is there and not the empty string.\<close>

definition method_present :: "DecodedDataResponse option \<Rightarrow> bool" where
  "method_present dd =
     (case dd of
        None \<Rightarrow> False
      | Some d \<Rightarrow> (case method_name d of None \<Rightarrow> False | Some m \<Rightarrow> m \<noteq> []))"

text \<open>\<^verbatim>\<open>Number(tx?.data.value)\<close>; \<^verbatim>\<open>Number(undefined)\<close> is NaN.\<close>

definition value_Number :: "host \<Rightarrow> SafeTransaction option \<Rightarrow> js_number" where
  "value_Number h t = (case t of None \<Rightarrow> NaN | Some t' \<Rightarrow> Number h (call_value (data t')))"

text \<open>
  What the summary line shows after ``Advanced details'': the method, and the label of
  a native transfer. An expression \<^verbatim>\<open>a && b && 'label'\<close> renders the label when all the
  conditions before it are truthy and nothing otherwise.
\<close>

definition summary_method :: "DecodedTxProps \<Rightarrow> string option" where
  "summary_method props =
     (if isMethodCallInAdvanced props \<and> method_present (decodedData props)
      then (case decodedData props of None \<Rightarrow> None | Some d \<Rightarrow> method_name d)
      else None)"

definition native_transfer_label :: "host \<Rightarrow> DecodedTxProps \<Rightarrow> string option" where
  "native_transfer_label h props =
     (if \<not> showMethodCall_of props \<and> \<not> method_present (decodedData props) \<and>
         number_gt (value_Number h (tx props)) 0
      then Some ''native transfer'' else None)"

text \<open>Whether the batch is listed above the details.\<close>

definition multisend_shown :: "DecodedTxProps \<Rightarrow> bool" where
  "multisend_shown props = (isMultisend (decodedData props) \<and> showMultisend_of props)"

section \<open>A host for concrete runs\<close>

text \<open>
  The theorems hold for every host; the concrete runs need one. This one reads a
  string of at most fifteen decimal digits as the number it spells (exact as a
  double) and the empty string as 0, and takes the origin of a URL of the shape
  \<^verbatim>\<open>https://host/path\<close> (lower case, no port, user, query or fragment), as a browser does.
  On any other string its two built-ins answer NaN and a thrown TypeError; the runs
  give it strings of the two shapes, and strings that are no numeral at all.
  Its random draw is 0, its timer treats a delay beyond 2147483647 as a browser does,
  and its network fails every request until a run says otherwise.
\<close>

definition digit_value :: "char \<Rightarrow> nat option" where
  "digit_value c =
     (let n = of_char c :: nat in if 48 \<le> n \<and> n \<le> 57 then Some (n - 48) else None)"

fun decimal_value :: "string \<Rightarrow> nat \<Rightarrow> nat option" where
  "decimal_value [] acc = Some acc"
| "decimal_value (c # cs) acc =
     (case digit_value c of None \<Rightarrow> None | Some d \<Rightarrow> decimal_value cs (10 * acc + d))"

definition Number_decimal :: "string \<Rightarrow> js_number" where
  "Number_decimal s =
     (if 15 < length s then NaN
      else (case decimal_value s 0 of None \<Rightarrow> NaN | Some n \<Rightarrow> Finite (of_nat n)))"

definition origin_https :: "string \<Rightarrow> string option" where
  "origin_https u =
     (if js_startsWith u ''https://''
      then (case takeWhile (\<lambda>c. c \<noteq> CHR ''/'') (drop 8 u) of
              [] \<Rightarrow> None
            | c # cs \<Rightarrow> Some (''https://'' @ c # cs))
      else None)"

definition example_host :: host where
  "example_host =
     \<lparr>Number = Number_decimal,
      URL_origin = origin_https,
      cheerio_manifest_href = (\<lambda>html. Inr None),
      fresh_id = 1000000,
      overflow_delay = (\<lambda>t. if t mod 4294967296 < 2147483648 then t mod 4294967296 else 0),
      page_fetch = (\<lambda>u. Settles 0 NetworkFailure),
      manifest_fetch = (\<lambda>u. Settles 0 NetworkFailure)\<rparr>"

section \<open>Properties of the transaction view\<close>

text \<open>
  Claim C1, as the component has it. \<open>isMultisend\<close> holds exactly when there is decoded
  data, its parameter list is there and not empty, and the first parameter carries a
  nested decoded value, whether or not that sequence has an element. It is false when
  there is no decoded data, no parameter list, an empty parameter list, or a first
  parameter without a nested value, and the method name plays no part.
\<close>

theorem isMultisend_iff_nested_value_present:
  "(isMultisend dd \<longleftrightarrow>
      (\<exists>d p ps calls. dd = Some d \<and> parameters d = Some (p # ps) \<and> valueDecoded p = Some calls)) \<and>
   isMultisend None = False \<and>
   isMultisend (Some (DecodedDataResponse m None)) = False \<and>
   isMultisend (Some (DecodedDataResponse m (Some []))) = False \<and>
   isMultisend (Some (DecodedDataResponse m (Some (DecodedDataParameter n t v None # rest)))) = False \<and>
   isMultisend (Some (DecodedDataResponse m ps')) = isMultisend (Some (DecodedDataResponse m' ps'))"
  by (auto simp: isMultisend_def split: option.splits list.splits)

text \<open>
  The claim asks for a sequence that is not empty. A first parameter whose nested
  value is the empty array makes \<open>isMultisend\<close> true all the same: the double negation
  tests the array, and an empty array is truthy.
\<close>

theorem isMultisend_empty_batch_counterexample:
  "isMultisend (Some (DecodedDataResponse (Some ''multiSend'')
      (Some [DecodedDataParameter ''transactions'' ''bytes'' ''0x'' (Some [])])))"
  by (simp add: isMultisend_def)

text \<open>A batch of one inner call is a multisend; a plain call with one parameter is not.\<close>

theorem isMultisend_witness:
  "isMultisend (Some (DecodedDataResponse (Some ''multiSend'')
      (Some [DecodedDataParameter ''transactions'' ''bytes'' ''0x''
        (Some [InternalTransaction CALL ''0xA'' (Some ''1'') None None])]))) \<and>
   isMultisend (Some (DecodedDataResponse (Some ''transfer'')
      (Some [DecodedDataParameter ''to'' ''address'' ''0xA'' None]))) = False"
  using isMultisend_iff_nested_value_present
    [of "Some (DecodedDataResponse (Some ''multiSend'')
      (Some [DecodedDataParameter ''transactions'' ''bytes'' ''0x''
        (Some [InternalTransaction CALL ''0xA'' (Some ''1'') None None])]))"
      "Some ''transfer''" "''to''" "''address''" "''0xA''" "[]"]
  by simp

text \<open>
  Claim C7, as the component has it. The label ``native transfer'' is shown exactly when
  the flag \<^verbatim>\<open>showMethodCall\<close> is not set, the decoded data has no method (there is no
  decoded data, or its method is absent or the empty string), and there is a
  transaction whose value \<^verbatim>\<open>Number\<close> reads as a number above zero. Nothing else is ever
  shown in its place.
\<close>

theorem native_transfer_label_iff:
  "(native_transfer_label h props = Some ''native transfer'' \<longleftrightarrow>
      showMethodCall props \<noteq> Some True \<and>
      (decodedData props = None \<or>
       (\<exists>d. decodedData props = Some d \<and> (method_name d = None \<or> method_name d = Some []))) \<and>
      (\<exists>t. tx props = Some t \<and> number_gt (Number h (call_value (data t))) 0)) \<and>
   (native_transfer_label h props = Some ''native transfer'' \<or> native_transfer_label h props = None)"
  by (auto simp: native_transfer_label_def showMethodCall_of_def method_present_def value_Number_def
      split: option.splits)

text \<open>
  The claim names two conditions only. With \<^verbatim>\<open>showMethodCall\<close> set, a transfer of one
  unit without decoded data is not labelled, although no method is present and the
  value is above zero.
\<close>

theorem native_transfer_showMethodCall_counterexample:
  "native_transfer_label example_host
     \<lparr>tx = Some \<lparr>data = \<lparr>to = ''0xA'', call_value = ''1'', call_data = ''0x'', operation = Call\<rparr>\<rparr>,
      txId = None, decodedData = None, showMultisend = None, showMethodCall = Some True\<rparr> = None \<and>
   \<not> method_present None \<and>
   number_gt (Number example_host ''1'') 0"
  by (simp add: native_transfer_label_def showMethodCall_of_def method_present_def
      example_host_def Number_decimal_def digit_value_def)

text \<open>The same transfer with the flag left at its default is labelled.\<close>

theorem native_transfer_label_witness:
  "native_transfer_label example_host
     \<lparr>tx = Some \<lparr>data = \<lparr>to = ''0xA'', call_value = ''1'', call_data = ''0x'', operation = Call\<rparr>\<rparr>,
      txId = None, decodedData = None, showMultisend = None, showMethodCall = None\<rparr> =
   Some ''native transfer''"
  using native_transfer_label_iff [of example_host
     "\<lparr>tx = Some \<lparr>data = \<lparr>to = ''0xA'', call_value = ''1'', call_data = ''0x'', operation = Call\<rparr>\<rparr>,
      txId = None, decodedData = None, showMultisend = None, showMethodCall = None\<rparr>"]
  by (simp add: example_host_def Number_decimal_def digit_value_def)

text \<open>
  Claim C8. The flag \<^verbatim>\<open>trustedDelegateCallTarget\<close> of the object the component builds is
  true when the details have not arrived, when they carry no transaction data, and
  when that data carries no flag; it is the flag of the details when there is one.
\<close>

theorem trustedDelegateCallTarget_default:
  "trustedDelegateCallTarget (DecodedTx_txData props None) = Some True \<and>
   trustedDelegateCallTarget (DecodedTx_txData props (Some \<lparr>txData = None\<rparr>)) = Some True \<and>
   trustedDelegateCallTarget
     (DecodedTx_txData props (Some \<lparr>txData = Some (td\<lparr>trustedDelegateCallTarget := None\<rparr>)\<rparr>)) =
     Some True \<and>
   trustedDelegateCallTarget
     (DecodedTx_txData props (Some \<lparr>txData = Some (td\<lparr>trustedDelegateCallTarget := Some b\<rparr>)\<rparr>)) =
     Some b"
  by (simp add: DecodedTx_txData_def)

text \<open>Details that mark the target as not trusted are passed on as they are.\<close>

theorem trustedDelegateCallTarget_witness:
  "trustedDelegateCallTarget
     (DecodedTx_txData
        \<lparr>tx = None, txId = Some ''multisig_0xA_0xB'', decodedData = None, showMultisend = None,
         showMethodCall = None\<rparr>
        (Some \<lparr>txData = Some
           \<lparr>dataDecoded = None,
            txData_to = \<lparr>address_value = ''0xA'', address_name = None, address_logoUri = None\<rparr>,
            txData_value = None, txData_operation = DELEGATE,
            trustedDelegateCallTarget = Some False, addressInfoIndex = None\<rparr>\<rparr>)) =
   Some False"
  using trustedDelegateCallTarget_default
    [of "\<lparr>tx = None, txId = Some ''multisig_0xA_0xB'', decodedData = None, showMultisend = None,
         showMethodCall = None\<rparr>"
      "\<lparr>dataDecoded = None,
        txData_to = \<lparr>address_value = ''0xA'', address_name = None, address_logoUri = None\<rparr>,
        txData_value = None, txData_operation = DELEGATE,
        trustedDelegateCallTarget = Some False, addressInfoIndex = None\<rparr>" False]
  by simp

section \<open>Properties of the manifest module\<close>

subsection \<open>What the functions can throw\<close>

lemma sizes_includes_any_error: "sizes_includes_any icon = Inl e \<Longrightarrow> e = TypeError"
  by (auto simp: sizes_includes_any_def split: option.splits json.splits)

lemma is_svgIcon_error: "is_svgIcon icon = Inl e \<Longrightarrow> e = TypeError"
  by (auto simp: is_svgIcon_def split: sum.splits dest: sizes_includes_any_error)

lemma find_svgIcon_error: "find_svgIcon icons = Inl e \<Longrightarrow> e = TypeError"
  by (induction icons) (auto split: sum.splits if_splits dest: is_svgIcon_error)

lemma scan_icons_error: "scan_icons h icons = Inl e \<Longrightarrow> e = TypeError"
  by (induction icons) (auto split: json.splits option.splits if_splits)

lemma chooseBestIcon_error: "chooseBestIcon h icons = Inl e \<Longrightarrow> e = TypeError"
  by (auto simp: chooseBestIcon_def split: sum.splits option.splits if_splits list.splits json.splits
      dest: find_svgIcon_error scan_icons_error)

lemma length_truthy_error: "length_truthy v = Inl e \<Longrightarrow> e = TypeError"
  by (auto simp: length_truthy_def split: json.splits)

lemma iconUrl_of_error: "iconUrl_of h manifest = Inl e \<Longrightarrow> e = TypeError"
  by (auto simp: iconUrl_of_def Let_def split: json.splits sum.splits if_splits
      dest: length_truthy_error chooseBestIcon_error)

lemma getAppLogoUrl_error: "getAppLogoUrl h appUrl manifest = Inl e \<Longrightarrow> e = TypeError"
  by (auto simp: getAppLogoUrl_def Let_def split: sum.splits option.splits json.splits if_splits
      dest: iconUrl_of_error)

lemma fetchAndParse_never_throws: "snd (fetchAndParse h url rt) \<noteq> Some (Inl e)"
  by (auto simp: fetchAndParse_def Let_def split: option.splits sum.splits)

lemma request_manifest_error:
  "snd (request_manifest h manifestUrl timeout rt) = Some (Inl e) \<Longrightarrow>
   e = TypeError \<or> e = AbortError \<or> e = SyntaxError \<or>
   e = Error (''Failed to fetch manifest from '' @ manifestUrl)"
  by (auto simp: request_manifest_def Let_def split: option.splits reply.splits if_splits reading.splits)

lemma manifestUrl_of_error: "manifestUrl_of h appUrl manifestPath = Inl e \<Longrightarrow> e = TypeError"
  by (auto simp: manifestUrl_of_def Let_def split: option.splits if_splits)

lemma fetchAppManifest_error:
  "snd (fetchAppManifest h appUrl timeout_arg rt) = Some (Inl e) \<Longrightarrow>
   e = TypeError \<or> e = AbortError \<or> e = SyntaxError \<or>
   (\<exists>u. e = Error (''Failed to fetch manifest from '' @ u))"
  using fetchAndParse_never_throws [of h "trimTrailingSlash appUrl" rt]
  by (auto simp: fetchAppManifest_def Let_def split: prod.splits option.splits sum.splits
      dest!: request_manifest_error manifestUrl_of_error)

lemma fetchAppManifest_not_invalid:
  "snd (fetchAppManifest h appUrl timeout_arg rt) \<noteq> Some (Inl invalid_manifest)"
  by (auto simp: invalid_manifest_def dest!: fetchAppManifest_error)

lemma getAppLogoUrl_not_invalid: "getAppLogoUrl h appUrl manifest \<noteq> Inl invalid_manifest"
  by (auto simp: invalid_manifest_def dest!: getAppLogoUrl_error)

subsection \<open>Validation\<close>

text \<open>
  Claim C4. \<open>isAppManifestValid\<close> accepts a parsed value exactly when it is an object
  with the keys name and description and at least one of icons and iconPath; it rejects
  \<^verbatim>\<open>{name: "x"}\<close> and accepts \<^verbatim>\<open>{name: "x", description: "y", iconPath: "/i.png"}\<close>. The
  pipeline throws the error ``Invalid Safe App manifest'' exactly when a document was
  fetched and the check rejects it: no other step throws that error.
\<close>

theorem manifest_validation:
  "(isAppManifestValid j \<longleftrightarrow>
      (\<exists>kvs. j = JObject kvs \<and> ''name'' \<in> fst ` set kvs \<and> ''description'' \<in> fst ` set kvs \<and>
         (''icons'' \<in> fst ` set kvs \<or> ''iconPath'' \<in> fst ` set kvs))) \<and>
   \<not> isAppManifestValid (JObject [(''name'', JString ''x'')]) \<and>
   isAppManifestValid
     (JObject [(''name'', JString ''x''), (''description'', JString ''y''),
               (''iconPath'', JString ''/i.png'')]) \<and>
   (snd (fetchSafeAppFromManifest h appUrl currentChainId rt) = Some (Inl invalid_manifest) \<longleftrightarrow>
      (\<exists>doc. snd (fetchAppManifest h appUrl None rt) = Some (Inr doc) \<and> \<not> isAppManifestValid doc))"
proof -
  have valid: "isAppManifestValid j \<longleftrightarrow>
      (\<exists>kvs. j = JObject kvs \<and> ''name'' \<in> fst ` set kvs \<and> ''description'' \<in> fst ` set kvs \<and>
         (''icons'' \<in> fst ` set kvs \<or> ''iconPath'' \<in> fst ` set kvs))" for j
    by (cases j) (auto simp: isAppManifestValid_def)
  have pipeline:
    "snd (fetchSafeAppFromManifest h appUrl currentChainId rt) = Some (Inl invalid_manifest) \<longleftrightarrow>
      (\<exists>doc. snd (fetchAppManifest h appUrl None rt) = Some (Inr doc) \<and> \<not> isAppManifestValid doc)"
    using fetchAppManifest_not_invalid [of h appUrl None rt]
      getAppLogoUrl_not_invalid [of h "trimTrailingSlash appUrl"]
    by (auto simp: fetchSafeAppFromManifest_def Let_def split: prod.splits option.splits sum.splits)
  show ?thesis
    using pipeline by (simp add: valid)
qed

subsection \<open>The selection of the icon\<close>

lemma js_get_icon_json:
  "js_get (icon_json i) ''src'' = map_option JString (src i)"
  "js_get (icon_json i) ''sizes'' = map_option JString (sizes i)"
  "js_get (icon_json i) ''type'' = map_option JString (icon_type i)"
  by (simp_all add: icon_json_def string_prop_def split: option.splits)

lemma icon_json_object: "\<exists>kvs. icon_json i = JObject kvs"
  by (simp add: icon_json_def)

lemma js_get_opt_icon_json: "js_get_opt (icon_json i) k = js_get (icon_json i) k"
  by (simp add: js_get_opt_def icon_json_def)

lemma truthy_icon_json: "truthy (Some (icon_json i))"
  by (simp add: icon_json_def)

lemma is_svgIcon_icon_json: "is_svgIcon (icon_json i) = Inr (scalable i)"
  by (auto simp: is_svgIcon_def sizes_includes_any_def js_get_opt_icon_json js_get_icon_json
      scalable_def split: option.splits)

lemma find_svgIcon_icon_json:
  "find_svgIcon (map icon_json icons) = Inr (map_option icon_json (find scalable icons))"
  by (induction icons) (simp_all add: is_svgIcon_icon_json)

lemma scan_icons_Cons_icon_json:
  "scan_icons h (icon_json i # rest) =
     (case sizes i of
        None \<Rightarrow> Inl TypeError
      | Some s \<Rightarrow>
          if list_ex (wide_enough h) (js_split s CHR '' '')
          then Inr (Some (map_option JString (src i)))
          else scan_icons h rest)"
proof -
  obtain kvs where kvs: "icon_json i = JObject kvs"
    using icon_json_object by blast
  have sizes_kvs: "map_of kvs ''sizes'' = map_option JString (sizes i)"
    using js_get_icon_json(2) [of i] by (simp add: kvs)
  have src_kvs: "map_of kvs ''src'' = map_option JString (src i)"
    using js_get_icon_json(1) [of i] by (simp add: kvs)
  show ?thesis
    by (cases "sizes i") (simp_all add: kvs sizes_kvs src_kvs)
qed

text \<open>
  The loops stop at the first icon that has no sizes or has a wide enough token: with
  an error at the one, with its source at the other.
\<close>

lemma scan_icons_icon_json:
  "scan_icons h (map icon_json icons) =
     (case find (\<lambda>i. sizes i = None \<or> wide h i) icons of
        None \<Rightarrow> Inr None
      | Some i \<Rightarrow> if sizes i = None then Inl TypeError
                  else Inr (Some (map_option JString (src i))))"
proof (induction icons)
  case Nil
  show ?case by simp
next
  case (Cons i icons)
  show ?case
    by (cases "sizes i")
      (simp_all add: scan_icons_Cons_icon_json Cons.IH wide_def del: scan_icons.simps)
qed

lemma js_or_src:
  "js_or (map_option JString v) (JString []) = JString (case v of None \<Rightarrow> [] | Some s \<Rightarrow> s)"
  by (auto simp: js_or_def split: option.splits)

lemma first_src_icon_json:
  "(case map icon_json icons of
      [] \<Rightarrow> Inl TypeError
    | JNull # _ \<Rightarrow> Inl TypeError
    | icon0 # _ \<Rightarrow> Inr (Some (js_or (js_get icon0 ''src'') (JString '''')))) =
   (case icons of
      [] \<Rightarrow> Inl TypeError
    | i0 # _ \<Rightarrow> Inr (Some (JString (case src i0 of None \<Rightarrow> [] | Some s \<Rightarrow> s))))"
proof (cases icons)
  case Nil
  then show ?thesis by simp
next
  case (Cons i rest)
  obtain kvs where kvs: "icon_json i = JObject kvs"
    using icon_json_object by blast
  have "js_or (js_get (JObject kvs) ''src'') (JString '''') =
      JString (case src i of None \<Rightarrow> [] | Some s \<Rightarrow> s)"
    using js_get_icon_json(1) [of i] js_or_src [of "src i"] by (simp add: kvs)
  then show ?thesis
    by (simp add: Cons kvs)
qed

text \<open>What \<open>chooseBestIcon\<close> does with a list of descriptors, errors included.\<close>

lemma chooseBestIcon_icon_json:
  "chooseBestIcon h (map icon_json icons) =
     (case find scalable icons of
        Some i \<Rightarrow> Inr (map_option JString (src i))
      | None \<Rightarrow>
          (case find (\<lambda>i. sizes i = None \<or> wide h i) icons of
             Some i \<Rightarrow> if sizes i = None then Inl TypeError
                         else Inr (map_option JString (src i))
           | None \<Rightarrow>
               (case icons of
                  [] \<Rightarrow> Inl TypeError
                | i0 # _ \<Rightarrow> Inr (Some (JString (case src i0 of None \<Rightarrow> [] | Some s \<Rightarrow> s))))))"
proof (cases "find scalable icons")
  case (Some i)
  then show ?thesis
    by (simp add: chooseBestIcon_def find_svgIcon_icon_json truthy_icon_json js_get_icon_json)
next
  case None
  then show ?thesis
    unfolding chooseBestIcon_def find_svgIcon_icon_json scan_icons_icon_json first_src_icon_json
    by (simp split: option.splits)
qed

lemma find_sizes_present:
  "list_all (\<lambda>i. sizes i \<noteq> None) icons \<Longrightarrow>
   find (\<lambda>i. sizes i = None \<or> wide h i) icons = find (wide h) icons"
  by (induction icons) auto

lemma find_Some_sizes:
  "list_all (\<lambda>i. sizes i \<noteq> None) icons \<Longrightarrow> find P icons = Some i \<Longrightarrow> sizes i \<noteq> None"
  by (induction icons) (auto split: if_splits)

text \<open>
  Claim C3, as the function has it. For a list of descriptors that is not empty and
  whose icons all have sizes, \<open>chooseBestIcon\<close> returns the source of the first icon whose
  sizes string contains \<^verbatim>\<open>any\<close> as a substring or whose type is exactly
  \<^verbatim>\<open>image/svg+xml\<close>, if there is one; otherwise the source of the first icon one of whose
  tokens (the sizes split at single spaces) has, before its first \<^verbatim>\<open>x\<close>, text that \<^verbatim>\<open>Number\<close>
  reads as 128 or more; otherwise the source of the first icon, the empty string when
  that source is empty or absent. The result is a function of the list, and each rule
  takes the first icon in the order of the list.
\<close>

theorem chooseBestIcon_selection:
  assumes "icons \<noteq> []" and "list_all (\<lambda>i. sizes i \<noteq> None) icons"
  shows "chooseBestIcon h (map icon_json icons) =
     Inr (case find scalable icons of
            Some i \<Rightarrow> map_option JString (src i)
          | None \<Rightarrow>
              (case find (wide h) icons of
                 Some i \<Rightarrow> map_option JString (src i)
               | None \<Rightarrow> Some (JString (case src (hd icons) of None \<Rightarrow> [] | Some s \<Rightarrow> s))))"
proof (cases "find scalable icons")
  case (Some i)
  then show ?thesis
    by (simp add: chooseBestIcon_icon_json)
next
  case None
  note no_scalable = this
  show ?thesis
  proof (cases "find (wide h) icons")
    case None
    have first: "(case icons of [] \<Rightarrow> a | i0 # _ \<Rightarrow> f i0) = f (hd icons)" for a :: "'b" and f
      using assms(1) by (cases icons) simp_all
    from None no_scalable assms(2) show ?thesis
      by (simp add: chooseBestIcon_icon_json find_sizes_present first)
  next
    case (Some i)
    then have "sizes i \<noteq> None"
      using find_Some_sizes [OF assms(2)] by blast
    with Some no_scalable assms show ?thesis
      by (simp add: chooseBestIcon_icon_json find_sizes_present)
  qed
qed

text \<open>
  The claim's first rule asks for the token \<^verbatim>\<open>any\<close>. Here no icon has that token and none
  is an SVG, and the second icon is 256 wide, so the claim's rules choose \<^verbatim>\<open>b.png\<close>; the
  function returns \<^verbatim>\<open>a.png\<close>, because the sizes of the first icon contain the letters
  \<^verbatim>\<open>any\<close> inside the token \<^verbatim>\<open>many\<close>.
\<close>

theorem chooseBestIcon_any_token_counterexample:
  "chooseBestIcon example_host
     (map icon_json
        [\<lparr>src = Some ''a.png'', sizes = Some ''64x64 many'', icon_type = None, purpose = None\<rparr>,
         \<lparr>src = Some ''b.png'', sizes = Some ''256x256'', icon_type = None, purpose = None\<rparr>]) =
   Inr (Some (JString ''a.png'')) \<and>
   ''any'' \<notin> set (js_split ''64x64 many'' CHR '' '') \<and>
   ''any'' \<notin> set (js_split ''256x256'' CHR '' '') \<and>
   wide_enough example_host ''256x256''"
  by (simp add: chooseBestIcon_def icon_json_def string_prop_def is_svgIcon_def
      sizes_includes_any_def js_get_opt_def example_host_def Number_decimal_def digit_value_def
      MIN_ICON_WIDTH_def js_startsWith_def wide_enough_def)

text \<open>Of an icon of 64 and an icon of 256 the second is chosen.\<close>

theorem chooseBestIcon_selection_witness:
  "chooseBestIcon example_host
     (map icon_json
        [\<lparr>src = Some ''small.png'', sizes = Some ''64x64'', icon_type = None, purpose = None\<rparr>,
         \<lparr>src = Some ''big.png'', sizes = Some ''256x256'', icon_type = None, purpose = None\<rparr>]) =
   Inr (Some (JString ''big.png''))"
  using chooseBestIcon_selection
    [of "[\<lparr>src = Some ''small.png'', sizes = Some ''64x64'', icon_type = None, purpose = None\<rparr>,
          \<lparr>src = Some ''big.png'', sizes = Some ''256x256'', icon_type = None, purpose = None\<rparr>]" example_host]
  by (simp add: example_host_def Number_decimal_def digit_value_def MIN_ICON_WIDTH_def
      js_startsWith_def wide_enough_def scalable_def wide_def)

text \<open>
  Claim C10. The validation accepts a manifest whatever its icons look like. When no
  icon of the list is scalable, one icon has no sizes, and every icon before it has
  sizes none of which is wide enough, \<open>chooseBestIcon\<close> throws a TypeError at that icon
  instead of passing over it, and so does \<open>getAppLogoUrl\<close>.
\<close>

theorem chooseBestIcon_missing_sizes:
  assumes "find scalable icons = None"
    and "icons = before @ i # after"
    and "sizes i = None"
    and "list_all (\<lambda>j. sizes j \<noteq> None \<and> \<not> wide h j) before"
  shows "isAppManifestValid (manifest_with_icons name description icons) \<and>
     chooseBestIcon h (map icon_json icons) = Inl TypeError \<and>
     getAppLogoUrl h appUrl (manifest_with_icons name description icons) = Inl TypeError"
proof -
  have found: "find (\<lambda>j. sizes j = None \<or> wide h j) (before @ i # after) = Some i"
    using assms(3,4) by (induction before) auto
  have choose: "chooseBestIcon h (map icon_json icons) = Inl TypeError"
    unfolding chooseBestIcon_icon_json
    using assms(1,3) found [folded assms(2)] by simp
  have "iconUrl_of h (manifest_with_icons name description icons) =
      chooseBestIcon h (map icon_json icons)"
    using assms(2) by (simp add: iconUrl_of_def manifest_with_icons_def length_truthy_def)
  then have "getAppLogoUrl h appUrl (manifest_with_icons name description icons) = Inl TypeError"
    by (simp add: getAppLogoUrl_def choose)
  moreover have "isAppManifestValid (manifest_with_icons name description icons)"
    by (simp add: isAppManifestValid_def manifest_with_icons_def)
  ultimately show ?thesis
    using choose by simp
qed

text \<open>An icon without sizes in front of an icon of 256: the manifest is valid, the selection throws.\<close>

theorem chooseBestIcon_missing_sizes_witness:
  "isAppManifestValid (manifest_with_icons ''x'' ''y''
      [\<lparr>src = Some ''a.png'', sizes = None, icon_type = None, purpose = None\<rparr>,
       \<lparr>src = Some ''b.png'', sizes = Some ''256x256'', icon_type = None, purpose = None\<rparr>]) \<and>
   chooseBestIcon example_host (map icon_json
      [\<lparr>src = Some ''a.png'', sizes = None, icon_type = None, purpose = None\<rparr>,
       \<lparr>src = Some ''b.png'', sizes = Some ''256x256'', icon_type = None, purpose = None\<rparr>]) = Inl TypeError \<and>
   getAppLogoUrl example_host ''https://app.example'' (manifest_with_icons ''x'' ''y''
      [\<lparr>src = Some ''a.png'', sizes = None, icon_type = None, purpose = None\<rparr>,
       \<lparr>src = Some ''b.png'', sizes = Some ''256x256'', icon_type = None, purpose = None\<rparr>]) = Inl TypeError"
  using chooseBestIcon_missing_sizes
    [of "[\<lparr>src = Some ''a.png'', sizes = None, icon_type = None, purpose = None\<rparr>,
          \<lparr>src = Some ''b.png'', sizes = Some ''256x256'', icon_type = None, purpose = None\<rparr>]"
      "[]" "\<lparr>src = Some ''a.png'', sizes = None, icon_type = None, purpose = None\<rparr>"
      "[\<lparr>src = Some ''b.png'', sizes = Some ''256x256'', icon_type = None, purpose = None\<rparr>]"
      example_host "''x''" "''y''" "''https://app.example''"]
  by (simp add: scalable_def js_startsWith_def)

subsection \<open>The icon's URL\<close>

text \<open>
  Claim C5. For an app URL that has an origin and a chosen icon reference,
  \<open>getAppLogoUrl\<close> returns the reference unchanged when it starts with \<^verbatim>\<open>https://\<close>, and
  otherwise the origin followed by the reference, with a slash between the two only
  when the reference does not start with one.
\<close>

theorem getAppLogoUrl_resolves:
  assumes "iconUrl_of h manifest = Inr (Some (JString ref))"
    and "URL_origin h appUrl = Some origin"
  shows "getAppLogoUrl h appUrl manifest =
     Inr (if js_startsWith ref ''https://'' then ref
          else if js_startsWith ref ''/'' then origin @ ref
          else origin @ ''/'' @ ref)"
  using assms by (simp add: getAppLogoUrl_def isRelativeUrl_def)

text \<open>The three documented shapes: a bare name, a path from the root, an absolute URL.\<close>

theorem getAppLogoUrl_resolves_witness:
  "getAppLogoUrl example_host ''https://app.example/sub''
     (JObject [(''name'', JString ''x''), (''description'', JString ''y''),
               (''iconPath'', JString ''icon.png'')]) = Inr ''https://app.example/icon.png'' \<and>
   getAppLogoUrl example_host ''https://app.example''
     (JObject [(''name'', JString ''x''), (''description'', JString ''y''),
               (''iconPath'', JString ''/icon.png'')]) = Inr ''https://app.example/icon.png'' \<and>
   getAppLogoUrl example_host ''https://app.example''
     (JObject [(''name'', JString ''x''), (''description'', JString ''y''),
               (''iconPath'', JString ''https://cdn.other/icon.png'')]) =
     Inr ''https://cdn.other/icon.png''"
  using
    getAppLogoUrl_resolves [of example_host
      "JObject [(''name'', JString ''x''), (''description'', JString ''y''),
                (''iconPath'', JString ''icon.png'')]"
      "''icon.png''" "''https://app.example/sub''" "''https://app.example''"]
    getAppLogoUrl_resolves [of example_host
      "JObject [(''name'', JString ''x''), (''description'', JString ''y''),
                (''iconPath'', JString ''/icon.png'')]"
      "''/icon.png''" "''https://app.example''" "''https://app.example''"]
    getAppLogoUrl_resolves [of example_host
      "JObject [(''name'', JString ''x''), (''description'', JString ''y''),
                (''iconPath'', JString ''https://cdn.other/icon.png'')]"
      "''https://cdn.other/icon.png''" "''https://app.example''" "''https://app.example''"]
  by (simp add: iconUrl_of_def length_truthy_def example_host_def origin_https_def
      js_startsWith_def)

subsection \<open>The pipeline\<close>

text \<open>A page that serves \<^verbatim>\<open>{name: "x"}\<close> as its manifest is refused as invalid.\<close>

theorem manifest_validation_witness:
  "snd (fetchSafeAppFromManifest
     (example_host\<lparr>manifest_fetch := (\<lambda>u. Settles 40
        (Response \<lparr>status = 200, as_text = Never,
                   as_json = Gives (JObject [(''name'', JString ''x'')])\<rparr>))\<rparr>)
     ''https://app.example/'' ''1'' fresh) = Some (Inl invalid_manifest)"
  using manifest_validation
    [of JNull
      "example_host\<lparr>manifest_fetch := (\<lambda>u. Settles 40
        (Response \<lparr>status = 200, as_text = Never,
                   as_json = Gives (JObject [(''name'', JString ''x'')])\<rparr>))\<rparr>"
      "''https://app.example/''" "''1''" fresh]
  by (simp add: fetchAppManifest_def fetchAndParse_def fetchAndParse_try_def manifestUrl_of_def
      request_manifest_def race_def setTimeout_delay_def response_ok_def trimTrailingSlash_def fresh_def
      isAppManifestValid_def example_host_def)

lemma fetchAndParse_caught:
  "fetchAndParse_try h url = Some (Inl e) \<Longrightarrow>
   fetchAndParse h url rt =
     (rt\<lparr>requests := requests rt @ [url], console_errors := console_errors rt @ [e]\<rparr>,
      Some (Inr None))"
  by (simp add: fetchAndParse_def)

lemma fetchAndParse_returned:
  "fetchAndParse_try h url = Some (Inr manifestPath) \<Longrightarrow>
   fetchAndParse h url rt = (rt\<lparr>requests := requests rt @ [url]\<rparr>, Some (Inr manifestPath))"
  by (simp add: fetchAndParse_def)

lemma fetchAppManifest_after_discovery:
  assumes "fetchAndParse h (trimTrailingSlash appUrl) rt = (rt1, Some (Inr manifestPath))"
    and "manifestUrl_of h appUrl manifestPath = Inr manifestUrl"
  shows "fetchAppManifest h appUrl (Some timeout) rt = request_manifest h manifestUrl timeout rt1"
  using assms by (simp add: fetchAppManifest_def)

lemma fetchAppManifest_default_timeout:
  "fetchAppManifest h appUrl None rt = fetchAppManifest h appUrl (Some 5000) rt"
  by (simp add: fetchAppManifest_def)

lemma request_manifest_timer_first:
  assumes "manifest_fetch h manifestUrl = Hangs \<or>
      (\<exists>t r. manifest_fetch h manifestUrl = Settles t r \<and> setTimeout_delay h timeout \<le> t)"
  shows "request_manifest h manifestUrl timeout rt =
     (rt\<lparr>requests := requests rt @ [manifestUrl], timer_pending := False, signal_aborted := True\<rparr>,
      Some (Inl AbortError))"
  using assms by (auto simp: request_manifest_def race_def)

lemma request_manifest_not_ok:
  assumes "manifest_fetch h manifestUrl = Settles t (Response r)"
    and "t < setTimeout_delay h timeout"
    and "\<not> (200 \<le> status r \<and> status r \<le> 299)"
  shows "request_manifest h manifestUrl timeout rt =
     (rt\<lparr>requests := requests rt @ [manifestUrl], timer_pending := False\<rparr>,
      Some (Inl (Error (''Failed to fetch manifest from '' @ manifestUrl))))"
  using assms by (auto simp: request_manifest_def race_def setTimeout_delay_def response_ok_def)

lemma request_manifest_requests:
  "requests (fst (request_manifest h manifestUrl timeout rt)) = requests rt @ [manifestUrl]"
  by (auto simp: request_manifest_def Let_def split: option.splits reply.splits)

text \<open>
  The timer is still scheduled when the request returns or throws in one case only: the
  network failed the request before the deadline.
\<close>

lemma request_manifest_timer_pending:
  "timer_pending (fst (request_manifest h manifestUrl timeout rt)) \<longleftrightarrow>
     race (manifest_fetch h manifestUrl) (setTimeout_delay h timeout) = Some NetworkFailure"
  by (auto simp: request_manifest_def Let_def split: option.splits reply.splits)

text \<open>
  The body is read after the timer has been cleared: when the headers of a response
  with a good status come in time and the body never does, nothing aborts the request
  and the call never returns.
\<close>

lemma request_manifest_body_never:
  assumes "manifest_fetch h manifestUrl = Settles t (Response r)"
    and "t < setTimeout_delay h timeout"
    and "200 \<le> status r \<and> status r \<le> 299"
    and "as_json r = Never"
  shows "request_manifest h manifestUrl timeout rt =
     (rt\<lparr>requests := requests rt @ [manifestUrl], timer_pending := False\<rparr>, None)"
  using assms by (auto simp: request_manifest_def race_def setTimeout_delay_def response_ok_def)

text \<open>
  What the timer does achieve, for a timeout that \<^verbatim>\<open>setTimeout\<close> keeps as it is asked.
  Once discovery has returned and the manifest's URL is fixed, the request of the
  manifest runs under the timer: when the network has not settled the request by the
  time the timeout has passed, the controller is aborted and the call throws an
  AbortError; when the response comes in time with a status outside 200 to 299, the
  call throws the error ``Failed to fetch manifest from'' the URL. A call without a
  timeout is a call with 5000 milliseconds.
\<close>

lemma manifest_fetch_timeout:
  assumes "fetchAndParse h (trimTrailingSlash appUrl) rt = (rt1, Some (Inr manifestPath))"
    and "manifestUrl_of h appUrl manifestPath = Inr manifestUrl"
    and "timeout \<le> 2147483647"
  shows
    "(manifest_fetch h manifestUrl = Hangs \<or>
      (\<exists>t r. manifest_fetch h manifestUrl = Settles t r \<and> timeout < t) \<longrightarrow>
        fetchAppManifest h appUrl (Some timeout) rt =
          (rt1\<lparr>requests := requests rt1 @ [manifestUrl], timer_pending := False,
               signal_aborted := True\<rparr>,
           Some (Inl AbortError))) \<and>
     (\<forall>t r. manifest_fetch h manifestUrl = Settles t (Response r) \<and> t < timeout \<and>
            \<not> (200 \<le> status r \<and> status r \<le> 299) \<longrightarrow>
        snd (fetchAppManifest h appUrl (Some timeout) rt) =
          Some (Inl (Error (''Failed to fetch manifest from '' @ manifestUrl)))) \<and>
     fetchAppManifest h appUrl None rt = fetchAppManifest h appUrl (Some 5000) rt"
proof -
  have delay: "setTimeout_delay h timeout = timeout"
    using assms(3) by (simp add: setTimeout_delay_def)
  have step: "fetchAppManifest h appUrl (Some timeout) rt =
      request_manifest h manifestUrl timeout rt1"
    using assms(1,2) by (rule fetchAppManifest_after_discovery)
  have late: "fetchAppManifest h appUrl (Some timeout) rt =
      (rt1\<lparr>requests := requests rt1 @ [manifestUrl], timer_pending := False,
           signal_aborted := True\<rparr>,
       Some (Inl AbortError))"
    if "manifest_fetch h manifestUrl = Hangs \<or>
      (\<exists>t r. manifest_fetch h manifestUrl = Settles t r \<and> timeout < t)"
  proof -
    from that have "manifest_fetch h manifestUrl = Hangs \<or>
      (\<exists>t r. manifest_fetch h manifestUrl = Settles t r \<and> setTimeout_delay h timeout \<le> t)"
      by (auto simp: delay intro: less_imp_le)
    then show ?thesis
      unfolding step by (rule request_manifest_timer_first)
  qed
  have refused: "snd (fetchAppManifest h appUrl (Some timeout) rt) =
      Some (Inl (Error (''Failed to fetch manifest from '' @ manifestUrl)))"
    if "manifest_fetch h manifestUrl = Settles t (Response r)" "t < timeout"
      "\<not> (200 \<le> status r \<and> status r \<le> 299)" for t r
    unfolding step using that by (simp add: request_manifest_not_ok delay)
  show ?thesis
    using late refused fetchAppManifest_default_timeout by blast
qed

text \<open>
  A manifest that never answers: after the default 5000 milliseconds the call has
  thrown an AbortError, the signal is aborted and no timer is left.
\<close>

lemma manifest_fetch_timeout_example:
  "fetchAppManifest (example_host\<lparr>manifest_fetch := (\<lambda>u. Hangs)\<rparr>) ''https://app.example/'' None fresh =
     (\<lparr>requests = [''https://app.example'', ''https://app.example/manifest.json''],
       console_errors = [TypeError], timer_pending = False, signal_aborted = True\<rparr>,
      Some (Inl AbortError))"
  using manifest_fetch_timeout
    [of "example_host\<lparr>manifest_fetch := (\<lambda>u. Hangs)\<rparr>" "''https://app.example/''" fresh
      "\<lparr>requests = [''https://app.example''], console_errors = [TypeError],
        timer_pending = False, signal_aborted = False\<rparr>"
      None "''https://app.example/manifest.json''" 5000]
  by (simp add: fetchAndParse_def fetchAndParse_try_def manifestUrl_of_def trimTrailingSlash_def
      fresh_def example_host_def)

text \<open>
  Claim C2 at a body that never arrives. The page is served without a manifest link.
  The request of the manifest is answered after 30 milliseconds with status 200, and
  the body of that response never comes. The timer is cleared when the headers are
  there, \<^verbatim>\<open>response.json()\<close> waits for the body without a timer, and long after the 5000
  milliseconds the call has neither returned nor thrown, and nothing was aborted.
\<close>

theorem manifest_body_outlasts_timeout:
  "fetchAppManifest
     (example_host
        \<lparr>page_fetch := (\<lambda>u. Settles 20
            (Response \<lparr>status = 200, as_text = Gives ''<html></html>'', as_json = Malformed\<rparr>)),
         manifest_fetch := (\<lambda>u. Settles 30
            (Response \<lparr>status = 200, as_text = Never, as_json = Never\<rparr>))\<rparr>)
     ''https://app.example'' None fresh =
   (\<lparr>requests = [''https://app.example'', ''https://app.example/manifest.json''],
     console_errors = [], timer_pending = False, signal_aborted = False\<rparr>,
    None)"
  by (simp add: fetchAppManifest_def fetchAndParse_def fetchAndParse_try_def manifestUrl_of_def
      request_manifest_def race_def setTimeout_delay_def response_ok_def trimTrailingSlash_def
      fresh_def example_host_def)

text \<open>
  What the discovery leaves to the pipeline. A failure of the discovery is a throw
  inside the \<^verbatim>\<open>try\<close> block of \<open>fetchAndParse\<close>: a network failure, a status outside 200 to
  299, an error while the page is parsed. Whatever is thrown there is written to the
  console and the pipeline goes on to request the normalized URL followed by
  \<^verbatim>\<open>/manifest.json\<close>. It requests the same URL when the page has no manifest link or an
  empty one, and the origin of the app URL immediately followed by the href when the
  page has one. The request of the manifest passes exactly that URL to \<^verbatim>\<open>fetch\<close>.
\<close>

lemma discovery_failure_not_fatal:
  "(page_fetch h url = Settles t NetworkFailure \<longrightarrow>
      fetchAndParse_try h url = Some (Inl TypeError)) \<and>
   (page_fetch h url = Settles t (Response r) \<and> \<not> (200 \<le> status r \<and> status r \<le> 299) \<longrightarrow>
      fetchAndParse_try h url = Some (Inl (Error (''Response status: '' @ show_nat (status r))))) \<and>
   (page_fetch h url = Settles t (Response r) \<and> 200 \<le> status r \<and> status r \<le> 299 \<and>
    as_text r = Gives html \<and> cheerio_manifest_href h html = Inl e \<longrightarrow>
      fetchAndParse_try h url = Some (Inl e)) \<and>
   (fetchAndParse_try h (trimTrailingSlash appUrl) = Some (Inl e) \<longrightarrow>
      fetchAppManifest h appUrl (Some timeout) rt =
        request_manifest h (trimTrailingSlash appUrl @ ''/manifest.json'') timeout
          (rt\<lparr>requests := requests rt @ [trimTrailingSlash appUrl],
              console_errors := console_errors rt @ [e]\<rparr>)) \<and>
   (fetchAndParse_try h (trimTrailingSlash appUrl) = Some (Inr None) \<or>
    fetchAndParse_try h (trimTrailingSlash appUrl) = Some (Inr (Some [])) \<longrightarrow>
      fetchAppManifest h appUrl (Some timeout) rt =
        request_manifest h (trimTrailingSlash appUrl @ ''/manifest.json'') timeout
          (rt\<lparr>requests := requests rt @ [trimTrailingSlash appUrl]\<rparr>)) \<and>
   (fetchAndParse_try h (trimTrailingSlash appUrl) = Some (Inr (Some path)) \<and> path \<noteq> [] \<and>
    URL_origin h appUrl = Some origin \<longrightarrow>
      fetchAppManifest h appUrl (Some timeout) rt =
        request_manifest h (origin @ path) timeout
          (rt\<lparr>requests := requests rt @ [trimTrailingSlash appUrl]\<rparr>)) \<and>
   requests (fst (request_manifest h manifestUrl timeout rt')) = requests rt' @ [manifestUrl]"
proof -
  have network: "fetchAndParse_try h url = Some (Inl TypeError)"
    if "page_fetch h url = Settles t NetworkFailure"
    using that by (simp add: fetchAndParse_try_def)
  have status: "fetchAndParse_try h url = Some (Inl (Error (''Response status: '' @ show_nat (status r))))"
    if "page_fetch h url = Settles t (Response r)" "\<not> (200 \<le> status r \<and> status r \<le> 299)"
    using that by (simp add: fetchAndParse_try_def response_ok_def)
  have parse: "fetchAndParse_try h url = Some (Inl e)"
    if "page_fetch h url = Settles t (Response r)" "200 \<le> status r \<and> status r \<le> 299"
      "as_text r = Gives html" "cheerio_manifest_href h html = Inl e"
    using that by (simp add: fetchAndParse_try_def response_ok_def)
  have failed: "fetchAppManifest h appUrl (Some timeout) rt =
        request_manifest h (trimTrailingSlash appUrl @ ''/manifest.json'') timeout
          (rt\<lparr>requests := requests rt @ [trimTrailingSlash appUrl],
              console_errors := console_errors rt @ [e]\<rparr>)"
    if "fetchAndParse_try h (trimTrailingSlash appUrl) = Some (Inl e)"
    using fetchAndParse_caught [OF that, of rt]
    by (simp add: fetchAppManifest_def manifestUrl_of_def)
  have no_href: "fetchAppManifest h appUrl (Some timeout) rt =
        request_manifest h (trimTrailingSlash appUrl @ ''/manifest.json'') timeout
          (rt\<lparr>requests := requests rt @ [trimTrailingSlash appUrl]\<rparr>)"
    if "fetchAndParse_try h (trimTrailingSlash appUrl) = Some (Inr None) \<or>
        fetchAndParse_try h (trimTrailingSlash appUrl) = Some (Inr (Some []))"
    using that fetchAndParse_returned [of h "trimTrailingSlash appUrl" _ rt]
    by (auto simp: fetchAppManifest_def manifestUrl_of_def)
  have href: "fetchAppManifest h appUrl (Some timeout) rt =
        request_manifest h (origin @ path) timeout
          (rt\<lparr>requests := requests rt @ [trimTrailingSlash appUrl]\<rparr>)"
    if "fetchAndParse_try h (trimTrailingSlash appUrl) = Some (Inr (Some path))" "path \<noteq> []"
      "URL_origin h appUrl = Some origin"
    using that fetchAndParse_returned [OF that(1), of rt]
    by (simp add: fetchAppManifest_def manifestUrl_of_def)
  show ?thesis
    using network status parse failed no_href href request_manifest_requests by blast
qed

text \<open>
  A page that answers 404: the error is on the console, the default URL is requested,
  and the call returns the document found there.
\<close>

lemma discovery_failure_not_fatal_example:
  "fetchAppManifest
     (example_host
        \<lparr>page_fetch := (\<lambda>u. Settles 20 (Response \<lparr>status = 404, as_text = Never, as_json = Never\<rparr>)),
         manifest_fetch := (\<lambda>u. Settles 30 (Response
            \<lparr>status = 200, as_text = Never, as_json = Gives (JObject [(''name'', JString ''x'')])\<rparr>))\<rparr>)
     ''https://app.example/'' (Some 5000) fresh =
   (\<lparr>requests = [''https://app.example'', ''https://app.example/manifest.json''],
     console_errors = [Error ''Response status: 404''], timer_pending = False,
     signal_aborted = False\<rparr>,
    Some (Inr (JObject [(''name'', JString ''x'')])))"
  using discovery_failure_not_fatal
    [of "example_host
        \<lparr>page_fetch := (\<lambda>u. Settles 20 (Response \<lparr>status = 404, as_text = Never, as_json = Never\<rparr>)),
         manifest_fetch := (\<lambda>u. Settles 30 (Response
            \<lparr>status = 200, as_text = Never, as_json = Gives (JObject [(''name'', JString ''x'')])\<rparr>))\<rparr>"
      "''https://app.example''" 20 "\<lparr>status = 404, as_text = Never, as_json = Never\<rparr>"
      "''''" "Error ''Response status: 404''" "''https://app.example/''" 5000 fresh]
  by (simp add: fetchAndParse_try_def request_manifest_def race_def setTimeout_delay_def response_ok_def
      trimTrailingSlash_def fresh_def example_host_def)

text \<open>
  Claim C6 at a relative href. The page is served with the link
  \<^verbatim>\<open><link rel=manifest href=manifest.json>\<close>, and the manifest is there at
  \<^verbatim>\<open>https://app.example/manifest.json\<close>, which is the href resolved against the origin and
  what \<open>getAppLogoUrl\<close> makes of the same reference. The pipeline puts the href right
  after the origin, requests \<^verbatim>\<open>https://app.examplemanifest.json\<close>, and fails.
\<close>

theorem manifest_href_glued_to_origin:
  "fetchAppManifest
     (example_host
        \<lparr>cheerio_manifest_href := (\<lambda>html. Inr (Some ''manifest.json'')),
         page_fetch := (\<lambda>u. Settles 20
            (Response \<lparr>status = 200, as_text = Gives ''<link rel=manifest href=manifest.json>'',
                       as_json = Malformed\<rparr>)),
         manifest_fetch := (\<lambda>u.
            if u = ''https://app.example/manifest.json''
            then Settles 30 (Response
              \<lparr>status = 200, as_text = Never,
               as_json = Gives (JObject [(''name'', JString ''x''), (''description'', JString ''y''),
                                        (''iconPath'', JString ''/i.png'')])\<rparr>)
            else Settles 30 (Response \<lparr>status = 404, as_text = Never, as_json = Never\<rparr>))\<rparr>)
     ''https://app.example'' None fresh =
   (\<lparr>requests = [''https://app.example'', ''https://app.examplemanifest.json''],
     console_errors = [], timer_pending = False, signal_aborted = False\<rparr>,
    Some (Inl (Error ''Failed to fetch manifest from https://app.examplemanifest.json''))) \<and>
   getAppLogoUrl example_host ''https://app.example''
     (JObject [(''iconPath'', JString ''manifest.json'')]) = Inr ''https://app.example/manifest.json''"
  by (simp add: fetchAppManifest_def fetchAndParse_def fetchAndParse_try_def manifestUrl_of_def
      request_manifest_def race_def setTimeout_delay_def response_ok_def trimTrailingSlash_def fresh_def
      getAppLogoUrl_def iconUrl_of_def length_truthy_def isRelativeUrl_def js_startsWith_def
      example_host_def origin_https_def)

text \<open>
  Claim C9 at a network failure. The page is served without a manifest link, and the
  request of the manifest is rejected after 30 milliseconds. The call throws the
  TypeError of the failed request at the \<^verbatim>\<open>await\<close>, before \<^verbatim>\<open>clearTimeout\<close>: the timer it set
  is still scheduled when it has thrown.
\<close>

theorem timer_left_pending_on_network_failure:
  "fetchAppManifest
     (example_host
        \<lparr>page_fetch := (\<lambda>u. Settles 20
            (Response \<lparr>status = 200, as_text = Gives ''<html></html>'', as_json = Malformed\<rparr>)),
         manifest_fetch := (\<lambda>u. Settles 30 NetworkFailure)\<rparr>)
     ''https://app.example'' None fresh =
   (\<lparr>requests = [''https://app.example'', ''https://app.example/manifest.json''],
     console_errors = [], timer_pending = True, signal_aborted = False\<rparr>,
    Some (Inl TypeError))"
  by (simp add: fetchAppManifest_def fetchAndParse_def fetchAndParse_try_def manifestUrl_of_def
      request_manifest_def race_def setTimeout_delay_def response_ok_def trimTrailingSlash_def fresh_def
      example_host_def)

end
